theory Spec2Isabelle
  imports Main "HOL-Library.Multiset"
begin

section \<open>Python values\<close>

text \<open>
  A Python \<open>str\<close> is a sequence of Unicode code points, so it is modelled as a list of
  natural numbers; a well-formed string only holds code points below \<open>0x110000\<close>.
  Program text of the source is written as an Isabelle string literal and turned into
  code points by \<open>str\<close>. Python's \<open>int\<close> is unbounded and is modelled by \<open>int\<close>.
\<close>

type_synonym pystr = "nat list"

definition str :: "string \<Rightarrow> pystr" where
  "str s = map of_char s"

definition wf_str :: "pystr \<Rightarrow> bool" where
  "wf_str s = (\<forall>c \<in> set s. c < 0x110000)"

text \<open>\<open>ord(c)\<close>, the code point of a character.\<close>

abbreviation ord :: "char \<Rightarrow> nat" where
  "ord \<equiv> of_char"


text \<open>Exceptions of the source: every one it raises, or can meet, is a \<open>ValueError\<close>.\<close>

datatype exn = ValueError pystr

text \<open>\<open>sep.join(xs)\<close>\<close>

fun join :: "pystr \<Rightarrow> pystr list \<Rightarrow> pystr" where
  "join sep [] = []"
| "join sep [x] = x"
| "join sep (x # y # ys) = x @ sep @ join sep (y # ys)"

text \<open>
  \<open>str(i)\<close> for an integer, as the f-string fields \<open>{widget.x}\<close> render it: the decimal
  digits, most significant first, after a minus sign for a negative number. The
  conversion is total here; the limit an interpreter may set on the number of digits
  of such a conversion is a setting of the runtime and is not modelled.
\<close>

fun digits :: "nat \<Rightarrow> pystr" where
  "digits n =
     (if n < 10 then [ord CHR ''0'' + n]
      else digits (n div 10) @ [ord CHR ''0'' + n mod 10])"

declare digits.simps [simp del]

definition str_int :: "int \<Rightarrow> pystr" where
  "str_int i = (if i < 0 then ord CHR ''-'' # digits (nat (- i)) else digits (nat i))"

text \<open>
  \<open>max(iterable)\<close>: the largest element, and \<open>ValueError\<close> when the iterable is empty.
\<close>

fun py_max :: "int list \<Rightarrow> exn + int" where
  "py_max [] = Inl (ValueError (str ''max() arg is an empty sequence''))"
| "py_max (v # vs) = Inr (foldl max v vs)"

section \<open>String literals\<close>

abbreviation backslash :: nat where
  "backslash \<equiv> 0x5C"

abbreviation squote :: nat where
  "squote \<equiv> 0x27"

abbreviation dquote :: nat where
  "dquote \<equiv> 0x22"

subsection \<open>\<open>repr\<close> of a string\<close>

text \<open>
  The conversion \<open>!r\<close> of an f-string field calls \<open>repr\<close>, which for a \<open>str\<close> is the
  interpreter's \<open>unicode_repr\<close>. The literal is delimited by single quotes, or by double
  quotes when the string holds a single quote and no double quote. The delimiter and
  the backslash are escaped with a backslash; tab, line feed and carriage return
  become \<open>\t\<close>, \<open>\n\<close> and \<open>\r\<close>; the other ASCII control characters become \<open>\xhh\<close>;
  printable ASCII is copied; a character from \<open>0x80\<close> on is copied when the Unicode
  database calls it printable and is otherwise written \<open>\xhh\<close>, \<open>\uhhhh\<close> or
  \<open>\Uhhhhhhhh\<close>, by its size. The database is not part of the program: its predicate
  is the parameter \<open>isprintable\<close>, consulted for code points from \<open>0x80\<close> on only.
\<close>

definition hexdigits :: pystr where
  "hexdigits = str ''0123456789abcdef''"

text \<open>The \<open>k\<close> lowest hexadecimal digits of \<open>ch\<close>, most significant first.\<close>

definition hex_field :: "nat \<Rightarrow> nat \<Rightarrow> pystr" where
  "hex_field k ch = map (\<lambda>i. hexdigits ! ((ch div 16 ^ i) mod 16)) (rev [0..<k])"

definition repr_char :: "(nat \<Rightarrow> bool) \<Rightarrow> nat \<Rightarrow> nat \<Rightarrow> pystr" where
  "repr_char isprintable quote ch =
     (if ch = quote \<or> ch = backslash then [backslash, ch]
      else if ch = 0x09 then [backslash, ord CHR ''t'']
      else if ch = 0x0A then [backslash, ord CHR ''n'']
      else if ch = 0x0D then [backslash, ord CHR ''r'']
      else if ch < 0x20 \<or> ch = 0x7F then backslash # ord CHR ''x'' # hex_field 2 ch
      else if ch < 0x7F then [ch]
      else if \<not> isprintable ch then
        (if ch \<le> 0xFF then backslash # ord CHR ''x'' # hex_field 2 ch
         else if ch \<le> 0xFFFF then backslash # ord CHR ''u'' # hex_field 4 ch
         else backslash # ord CHR ''U'' # hex_field 8 ch)
      else [ch])"

definition repr_quote :: "pystr \<Rightarrow> nat" where
  "repr_quote s = (if squote \<in> set s \<and> dquote \<notin> set s then dquote else squote)"

definition unicode_repr :: "(nat \<Rightarrow> bool) \<Rightarrow> pystr \<Rightarrow> pystr" where
  "unicode_repr isprintable s =
     (let quote = repr_quote s
      in quote # concat (map (repr_char isprintable quote) s) @ [quote])"

subsection \<open>Reading a string literal\<close>

text \<open>
  The decoder is the lexical definition of a plain (no prefix) short string literal of
  the language the script is written in: an opening quote, items, and the same quote
  closing it, with nothing left over. An item is a character other than the backslash,
  a line break or the delimiter, or an escape sequence. The escapes are the ones of
  the language reference: backslash and line feed (ignored), \<open>\\\<close>, \<open>\'\<close>, \<open>\"\<close>,
  \<open>\a \b \f \n \r \t \v\<close>, up to three octal digits, \<open>\xhh\<close>, \<open>\uhhhh\<close> and
  \<open>\Uhhhhhhhh\<close> (at most \<open>0x10FFFF\<close>); any other escape keeps its backslash. A NUL
  character and the escape \<open>\N{name}\<close>, which needs the Unicode name table, are not
  read: the decoder answers \<open>None\<close> there, as it does for a malformed literal.
\<close>

definition hex_digit_value :: "nat \<Rightarrow> nat option" where
  "hex_digit_value c =
     (if ord CHR ''0'' \<le> c \<and> c \<le> ord CHR ''9'' then Some (c - ord CHR ''0'')
      else if ord CHR ''a'' \<le> c \<and> c \<le> ord CHR ''f'' then Some (c - ord CHR ''a'' + 10)
      else if ord CHR ''A'' \<le> c \<and> c \<le> ord CHR ''F'' then Some (c - ord CHR ''A'' + 10)
      else None)"

fun hex_value :: "nat \<Rightarrow> pystr \<Rightarrow> nat option" where
  "hex_value acc [] = Some acc"
| "hex_value acc (c # cs) =
     (case hex_digit_value c of None \<Rightarrow> None | Some d \<Rightarrow> hex_value (16 * acc + d) cs)"

definition is_octal :: "nat \<Rightarrow> bool" where
  "is_octal c = (ord CHR ''0'' \<le> c \<and> c \<le> ord CHR ''7'')"

definition octal_value :: "pystr \<Rightarrow> nat" where
  "octal_value ds = foldl (\<lambda>acc d. 8 * acc + (d - ord CHR ''0'')) 0 ds"

text \<open>A fixed-width hexadecimal escape: exactly \<open>k\<close> digits, and a code point.\<close>

definition hex_escape :: "nat \<Rightarrow> pystr \<Rightarrow> nat option" where
  "hex_escape k es =
     (if length es < k then None
      else case hex_value 0 (take k es) of
             None \<Rightarrow> None
           | Some v \<Rightarrow> if v < 0x110000 then Some v else None)"

function decode_items :: "nat \<Rightarrow> pystr \<Rightarrow> pystr option" where
  "decode_items q s =
     (case s of
        [] \<Rightarrow> None
      | c # cs \<Rightarrow>
          if c = q then (if cs = [] then Some [] else None)
          else if c = 0x0A \<or> c = 0x0D \<or> c = 0 then None
          else if c \<noteq> backslash then map_option ((#) c) (decode_items q cs)
          else
            (case cs of
               [] \<Rightarrow> None
             | e # es \<Rightarrow>
                 if e = 0x0A then decode_items q es
                 else if e = backslash \<or> e = squote \<or> e = dquote
                   then map_option ((#) e) (decode_items q es)
                 else if e = ord CHR ''a'' then map_option ((#) 0x07) (decode_items q es)
                 else if e = ord CHR ''b'' then map_option ((#) 0x08) (decode_items q es)
                 else if e = ord CHR ''f'' then map_option ((#) 0x0C) (decode_items q es)
                 else if e = ord CHR ''n'' then map_option ((#) 0x0A) (decode_items q es)
                 else if e = ord CHR ''r'' then map_option ((#) 0x0D) (decode_items q es)
                 else if e = ord CHR ''t'' then map_option ((#) 0x09) (decode_items q es)
                 else if e = ord CHR ''v'' then map_option ((#) 0x0B) (decode_items q es)
                 else if is_octal e then
                   (let more = takeWhile is_octal (take 2 es)
                    in map_option ((#) (octal_value (e # more)))
                         (decode_items q (drop (length more) es)))
                 else if e = ord CHR ''x'' then
                   (case hex_escape 2 es of
                      None \<Rightarrow> None
                    | Some v \<Rightarrow> map_option ((#) v) (decode_items q (drop 2 es)))
                 else if e = ord CHR ''u'' then
                   (case hex_escape 4 es of
                      None \<Rightarrow> None
                    | Some v \<Rightarrow> map_option ((#) v) (decode_items q (drop 4 es)))
                 else if e = ord CHR ''U'' then
                   (case hex_escape 8 es of
                      None \<Rightarrow> None
                    | Some v \<Rightarrow> map_option ((#) v) (decode_items q (drop 8 es)))
                 else if e = ord CHR ''N'' \<or> e = 0x0D \<or> e = 0 then None
                 else map_option ((#) backslash \<circ> (#) e) (decode_items q es)))"
  by pat_completeness auto
termination
  by (relation "measure (\<lambda>(q, s). length s)") auto

declare decode_items.simps [simp del]

definition decode_literal :: "pystr \<Rightarrow> pystr option" where
  "decode_literal lit =
     (case lit of
        [] \<Rightarrow> None
      | q # body \<Rightarrow> if q = squote \<or> q = dquote then decode_items q body else None)"

section \<open>The layout model\<close>

text \<open>
  The classes \<open>Widget\<close> and \<open>Layout\<close>. The field \<open>type\<close> is a free string, as in the
  source; \<open>text\<close> is \<open>None\<close> when absent, which differs from the empty string.
\<close>

record Widget =
  widget_id :: pystr
  widget_type :: pystr
  widget_x :: int
  widget_y :: int
  widget_width :: int
  widget_height :: int
  widget_text :: "pystr option"

record Layout =
  widgets :: "Widget list"

definition supported :: "pystr set" where
  "supported = {str ''Button'', str ''Label'', str ''Entry'', str ''Frame'', str ''Menu''}"

text \<open>\<open>Widget.validate_type\<close>\<close>

definition validate_type :: "pystr \<Rightarrow> exn + pystr" where
  "validate_type v =
     (if v \<notin> supported then Inl (ValueError (str ''Unsupported widget type: '' @ v))
      else Inr v)"


section \<open>The emitter\<close>

text \<open>
  The window extents, \<open>max(...) if layout.widgets else 0\<close>: the guard tests the list
  for emptiness before \<open>max\<close> is called.
\<close>

definition max_right :: "Layout \<Rightarrow> exn + int" where
  "max_right layout =
     (if widgets layout \<noteq> [] then py_max (map (\<lambda>w. widget_x w + widget_width w) (widgets layout))
      else Inr 0)"

definition max_bottom :: "Layout \<Rightarrow> exn + int" where
  "max_bottom layout =
     (if widgets layout \<noteq> [] then py_max (map (\<lambda>w. widget_y w + widget_height w) (widgets layout))
      else Inr 0)"

text \<open>The list \<open>options\<close> that one pass of the loop builds for a widget.\<close>

definition widget_options :: "(nat \<Rightarrow> bool) \<Rightarrow> Widget \<Rightarrow> pystr list" where
  "widget_options isprintable widget =
     (let wtype = widget_type widget
      in if widget_text widget \<noteq> None \<and> wtype \<in> {str ''Button'', str ''Label'', str ''Entry''}
         then (if wtype = str ''Entry'' then [str ''root'']
               else [str ''root'',
                     str ''text='' @ unicode_repr isprintable (the (widget_text widget))])
         else [str ''root''])"

definition construct_line :: "(nat \<Rightarrow> bool) \<Rightarrow> Widget \<Rightarrow> pystr" where
  "construct_line isprintable widget =
     (let var_name = widget_id widget;
          constructor = str ''tk.'' @ widget_type widget;
          opts = join (str '', '') (widget_options isprintable widget)
      in var_name @ str '' = '' @ constructor @ str ''('' @ opts @ str '')'')"

definition insert_line :: "(nat \<Rightarrow> bool) \<Rightarrow> Widget \<Rightarrow> pystr" where
  "insert_line isprintable widget =
     widget_id widget @ str ''.insert(0, ''
       @ unicode_repr isprintable (the (widget_text widget)) @ str '')''"

definition place_line :: "Widget \<Rightarrow> pystr" where
  "place_line widget =
     widget_id widget @ str ''.place(x='' @ str_int (widget_x widget)
       @ str '', y='' @ str_int (widget_y widget)
       @ str '', width='' @ str_int (widget_width widget)
       @ str '', height='' @ str_int (widget_height widget) @ str '')''"

text \<open>
  The body of the loop over \<open>layout.widgets\<close>: it takes the lines so far and returns
  them with the lines of one widget appended.
\<close>

definition emit_widget :: "(nat \<Rightarrow> bool) \<Rightarrow> pystr list \<Rightarrow> Widget \<Rightarrow> pystr list" where
  "emit_widget isprintable lines widget =
     (let lines = lines @ [construct_line isprintable widget];
          lines = (if widget_type widget = str ''Entry'' \<and> widget_text widget \<noteq> None
                   then lines @ [insert_line isprintable widget] else lines);
          lines = lines @ [place_line widget];
          lines = lines @ [[]]
      in lines)"

text \<open>The list \<open>lines\<close> as it stands when the function joins it.\<close>

definition generate_lines :: "(nat \<Rightarrow> bool) \<Rightarrow> Layout \<Rightarrow> exn + pystr list" where
  "generate_lines isprintable layout =
     (let lines = [];
          lines = lines @ [str ''import tkinter as tk''];
          lines = lines @ [[]];
          lines = lines @ [str ''root = tk.Tk()''];
          lines = lines @ [str ''root.title('Generated GUI')'']
      in case max_right layout of
           Inl exc \<Rightarrow> Inl exc
         | Inr right \<Rightarrow>
             (case max_bottom layout of
                Inl exc \<Rightarrow> Inl exc
              | Inr bottom \<Rightarrow>
                  (let lines = lines @ [str ''root.geometry('' @ [squote] @ str_int right
                                         @ str ''x'' @ str_int bottom @ [squote] @ str '')''];
                       lines = lines @ [[]];
                       lines = foldl (emit_widget isprintable) lines (widgets layout);
                       lines = lines @ [str ''root.mainloop()'']
                   in Inr lines)))"

definition generate_tkinter_code :: "(nat \<Rightarrow> bool) \<Rightarrow> Layout \<Rightarrow> exn + pystr" where
  "generate_tkinter_code isprintable layout =
     (case generate_lines isprintable layout of
        Inl exc \<Rightarrow> Inl exc
      | Inr lines \<Rightarrow> Inr (join [0x0A] lines))"

text \<open>The lines one widget contributes: the loop body run on no lines.\<close>

definition widget_block :: "(nat \<Rightarrow> bool) \<Rightarrow> Widget \<Rightarrow> pystr list" where
  "widget_block isprintable widget = emit_widget isprintable [] widget"





section \<open>Validation and the endpoint\<close>

text \<open>
  The request body before validation. The framework reads each field of a widget
  against the declaration in \<open>Widget\<close>; a field is \<open>None\<close> here when the body lacks it
  or holds a value the framework cannot read at the declared type (for \<open>text\<close>, when
  it is absent or null). The fields \<open>id\<close>, \<open>type\<close>, \<open>x\<close>, \<open>y\<close>, \<open>width\<close> and \<open>height\<close>
  are required (\<open>Field(...)\<close>), \<open>text\<close> defaults to \<open>None\<close>, and \<open>validate_type\<close> runs on
  a \<open>type\<close> that was read. The errors of all fields of all widgets are collected, each
  with the index of its widget and the name of its field; no check relates one widget
  to another.
\<close>

record raw_widget =
  raw_id :: "pystr option"
  raw_type :: "pystr option"
  raw_x :: "int option"
  raw_y :: "int option"
  raw_width :: "int option"
  raw_height :: "int option"
  raw_text :: "pystr option"

datatype field_error = Missing | Raised exn

type_synonym validation_error = "(nat \<times> pystr) \<times> field_error"

definition required :: "'a option \<Rightarrow> field_error + 'a" where
  "required v = (case v of None \<Rightarrow> Inl Missing | Some a \<Rightarrow> Inr a)"

definition checked_type :: "pystr option \<Rightarrow> field_error + pystr" where
  "checked_type v =
     (case v of
        None \<Rightarrow> Inl Missing
      | Some t \<Rightarrow> (case validate_type t of Inl exc \<Rightarrow> Inl (Raised exc) | Inr t' \<Rightarrow> Inr t'))"

definition field_errors :: "string \<Rightarrow> field_error + 'a \<Rightarrow> (pystr \<times> field_error) list" where
  "field_errors name res = (case res of Inl e \<Rightarrow> [(str name, e)] | Inr _ \<Rightarrow> [])"

definition parse_Widget :: "raw_widget \<Rightarrow> (pystr \<times> field_error) list + Widget" where
  "parse_Widget r =
     (let i = required (raw_id r);
          t = checked_type (raw_type r);
          x = required (raw_x r);
          y = required (raw_y r);
          w = required (raw_width r);
          h = required (raw_height r);
          errs = field_errors ''id'' i @ field_errors ''type'' t @ field_errors ''x'' x
                   @ field_errors ''y'' y @ field_errors ''width'' w @ field_errors ''height'' h
      in if errs \<noteq> [] then Inl errs
         else Inr \<lparr>widget_id = projr i, widget_type = projr t, widget_x = projr x,
                   widget_y = projr y, widget_width = projr w, widget_height = projr h,
                   widget_text = raw_text r\<rparr>)"

definition located :: "nat \<times> ((pystr \<times> field_error) list + Widget) \<Rightarrow> validation_error list" where
  "located p =
     (case p of
        (i, Inl errs) \<Rightarrow> map (\<lambda>(name, e). ((i, name), e)) errs
      | (i, Inr _) \<Rightarrow> [])"

definition parse_Layout :: "raw_widget list \<Rightarrow> validation_error list + Layout" where
  "parse_Layout raws =
     (let results = map parse_Widget raws;
          errs = concat (map located (enumerate 0 results))
      in if errs \<noteq> [] then Inl errs else Inr \<lparr>widgets = map projr results\<rparr>)"



text \<open>
  What a request ends in: the script, the validation errors (the framework answers
  them before the handler runs), or the message of an exception the handler caught.
\<close>

datatype response = Code pystr | Validation_Failure "validation_error list" | HTTP_400 pystr

text \<open>The handler \<open>generate_code\<close>; \<open>str(exc)\<close> of a \<open>ValueError\<close> is its message.\<close>

definition generate_code :: "(nat \<Rightarrow> bool) \<Rightarrow> Layout \<Rightarrow> response" where
  "generate_code isprintable layout =
     (case generate_tkinter_code isprintable layout of
        Inl (ValueError msg) \<Rightarrow> HTTP_400 msg
      | Inr code \<Rightarrow> Code code)"

definition post_generate_code :: "(nat \<Rightarrow> bool) \<Rightarrow> raw_widget list \<Rightarrow> response" where
  "post_generate_code isprintable raws =
     (case parse_Layout raws of
        Inl errs \<Rightarrow> Validation_Failure errs
      | Inr layout \<Rightarrow> generate_code isprintable layout)"

section \<open>Example layouts\<close>

text \<open>The button of the documented request body.\<close>

definition example_button :: Widget where
  "example_button =
     \<lparr>widget_id = str ''w1'', widget_type = str ''Button'', widget_x = 10, widget_y = 20,
      widget_width = 100, widget_height = 30, widget_text = Some (str ''Click me'')\<rparr>"

text \<open>
  An entry whose text holds both quote characters, a backslash and a line feed, placed
  off the canvas with a negative width.
\<close>

definition example_entry :: Widget where
  "example_entry =
     \<lparr>widget_id = str ''name'', widget_type = str ''Entry'', widget_x = - 5, widget_y = 0,
      widget_width = - 40, widget_height = 0,
      widget_text = Some (str ''a'b'' @ [backslash, 0x0A, dquote])\<rparr>"

text \<open>A label without text.\<close>

definition example_label :: Widget where
  "example_label =
     \<lparr>widget_id = str ''w1'', widget_type = str ''Label'', widget_x = 120, widget_y = 20,
      widget_width = 100, widget_height = 30, widget_text = None\<rparr>"

definition example_layout :: Layout where
  "example_layout = \<lparr>widgets = [example_button, example_entry, example_label]\<rparr>"

text \<open>
  Request bodies: the three widgets above before validation, and a widget of a kind
  the service does not know.
\<close>

definition raw_button :: raw_widget where
  "raw_button =
     \<lparr>raw_id = Some (str ''w1''), raw_type = Some (str ''Button''), raw_x = Some 10,
      raw_y = Some 20, raw_width = Some 100, raw_height = Some 30,
      raw_text = Some (str ''Click me'')\<rparr>"



definition raw_checkbox :: raw_widget where
  "raw_checkbox =
     \<lparr>raw_id = Some (str ''c1''), raw_type = Some (str ''Checkbox''), raw_x = Some 0,
      raw_y = Some 0, raw_width = Some 10, raw_height = Some 10, raw_text = None\<rparr>"

section \<open>The shape of the generated lines\<close>

lemma py_max_Max: "vs \<noteq> [] \<Longrightarrow> py_max vs = Inr (Max (set vs))"
proof (cases vs)
  case Nil
  assume "vs \<noteq> []"
  with Nil show ?thesis by simp
next
  case (Cons v rest)
  have "foldl max v rest = fold max rest v"
    by (simp add: foldl_conv_fold max.commute)
  then show ?thesis
    using Cons Max.set_eq_fold[of v rest] by simp
qed

lemma max_right_eq:
  "max_right layout =
     Inr (if widgets layout = [] then 0
          else Max ((\<lambda>w. widget_x w + widget_width w) ` set (widgets layout)))"
  by (simp add: max_right_def py_max_Max)

lemma max_bottom_eq:
  "max_bottom layout =
     Inr (if widgets layout = [] then 0
          else Max ((\<lambda>w. widget_y w + widget_height w) ` set (widgets layout)))"
  by (simp add: max_bottom_def py_max_Max)

lemma emit_widget_append: "emit_widget P lines w = lines @ widget_block P w"
  by (simp add: emit_widget_def widget_block_def Let_def)

lemma foldl_emit_widget:
  "foldl (emit_widget P) lines ws = lines @ concat (map (widget_block P) ws)"
proof (induction ws arbitrary: lines)
  case Nil
  show ?case by simp
next
  case (Cons w ws)
  show ?case
    by (simp add: Cons.IH emit_widget_append[of P lines w])
qed

text \<open>
  The lines of the script: four fixed lines, the geometry line, a blank line, the
  blocks of the widgets in input order, and the line that starts the event loop.
\<close>

lemma generate_lines_eq:
  "generate_lines P layout =
     Inr ([str ''import tkinter as tk'', [], str ''root = tk.Tk()'',
           str ''root.title('Generated GUI')'',
           str ''root.geometry('' @ [squote]
             @ str_int (if widgets layout = [] then 0
                        else Max ((\<lambda>w. widget_x w + widget_width w) ` set (widgets layout)))
             @ str ''x''
             @ str_int (if widgets layout = [] then 0
                        else Max ((\<lambda>w. widget_y w + widget_height w) ` set (widgets layout)))
             @ [squote] @ str '')'',
           []]
          @ concat (map (widget_block P) (widgets layout))
          @ [str ''root.mainloop()''])"
  unfolding generate_lines_def max_right_eq max_bottom_eq
  by (simp add: foldl_emit_widget Let_def del: set_empty)

lemma str_int_0: "str_int 0 = str ''0''"
  by (simp add: str_int_def digits.simps[of 0] str_def)

section \<open>Decoding what \<open>repr\<close> wrote\<close>

lemma hexdigits_nth: "n < 16 \<Longrightarrow> hexdigits ! n = (if n < 10 then 48 + n else 87 + n)"
proof -
  assume "n < 16"
  then have "n \<in> {0, 1, 2, 3, 4, 5, 6, 7, 8, 9, 10, 11, 12, 13, 14, 15}"
    by simp arith
  then show ?thesis
    by (auto simp: hexdigits_def str_def)
qed

lemma hex_digit_value_hexdigits: "n < 16 \<Longrightarrow> hex_digit_value (hexdigits ! n) = Some n"
  by (simp add: hexdigits_nth hex_digit_value_def)

lemma hex_field_Suc:
  "hex_field (Suc k) ch = hexdigits ! ((ch div 16 ^ k) mod 16) # hex_field k ch"
  by (simp add: hex_field_def)

lemma length_hex_field: "length (hex_field k ch) = k"
  by (simp add: hex_field_def)

lemma hex_value_hex_field:
  "hex_value acc (hex_field k ch) = Some (acc * 16 ^ k + ch mod 16 ^ k)"
proof (induction k arbitrary: acc)
  case 0
  show ?case by (simp add: hex_field_def)
next
  case (Suc k)
  have split: "ch mod (16 * 16 ^ k) = ch mod 16 ^ k + 16 ^ k * (ch div 16 ^ k mod 16)"
    using mod_mult2_eq[of ch "16 ^ k" 16] by (simp add: mult.commute)
  show ?case
    by (simp add: hex_field_Suc hex_digit_value_hexdigits Suc.IH split algebra_simps)
qed

lemma hex_escape_hex_field:
  assumes "ch < 16 ^ k" and "ch < 0x110000"
  shows "hex_escape k (hex_field k ch @ rest) = Some ch"
  using assms by (simp add: hex_escape_def length_hex_field hex_value_hex_field)

lemma decode_items_quote: "decode_items q [q] = Some []"
  by (simp add: decode_items.simps[of q "[q]"])

lemma decode_items_raw:
  assumes "c \<noteq> q" "c \<noteq> 0x0A" "c \<noteq> 0x0D" "c \<noteq> 0" "c \<noteq> backslash"
  shows "decode_items q (c # cs) = map_option ((#) c) (decode_items q cs)"
  using assms by (simp add: decode_items.simps[of q "c # cs"])

lemma decode_items_simple_escape:
  assumes "q \<noteq> backslash" "e = backslash \<or> e = squote \<or> e = dquote"
  shows "decode_items q (backslash # e # es) = map_option ((#) e) (decode_items q es)"
  using assms by (auto simp add: decode_items.simps[of q "backslash # e # es"])

lemma decode_items_tnr:
  assumes "q \<noteq> backslash"
  shows "decode_items q (backslash # ord CHR ''t'' # es) = map_option ((#) 0x09) (decode_items q es)"
    and "decode_items q (backslash # ord CHR ''n'' # es) = map_option ((#) 0x0A) (decode_items q es)"
    and "decode_items q (backslash # ord CHR ''r'' # es) = map_option ((#) 0x0D) (decode_items q es)"
  using assms
  by (simp_all add: decode_items.simps[of q "backslash # _ # es"] is_octal_def)

lemma decode_items_hex:
  assumes "q \<noteq> backslash" "ch < 0x110000"
  shows "ch < 0x100 \<Longrightarrow> decode_items q (backslash # ord CHR ''x'' # hex_field 2 ch @ rest)
           = map_option ((#) ch) (decode_items q rest)"
    and "ch < 0x10000 \<Longrightarrow> decode_items q (backslash # ord CHR ''u'' # hex_field 4 ch @ rest)
           = map_option ((#) ch) (decode_items q rest)"
    and "decode_items q (backslash # ord CHR ''U'' # hex_field 8 ch @ rest)
           = map_option ((#) ch) (decode_items q rest)"
  using assms
  by (simp_all add: decode_items.simps[of q "backslash # _ # hex_field _ ch @ rest"] is_octal_def
        hex_escape_hex_field length_hex_field)

lemma decode_items_repr_char:
  assumes q: "q = squote \<or> q = dquote" and c: "c < 0x110000"
  shows "decode_items q (repr_char P q c @ rest) = map_option ((#) c) (decode_items q rest)"
proof -
  have qb: "q \<noteq> backslash"
    using q by auto
  consider (esc) "c = q \<or> c = backslash"
    | (tab) "c = 0x09" | (lf) "c = 0x0A" | (cr) "c = 0x0D"
    | (ctl) "c \<noteq> 0x09" "c \<noteq> 0x0A" "c \<noteq> 0x0D" "c < 0x20 \<or> c = 0x7F"
    | (ascii) "c \<noteq> q" "c \<noteq> backslash" "0x20 \<le> c" "c < 0x7F"
    | (raw) "0x7F < c" "P c"
    | (x) "0x7F < c" "\<not> P c" "c \<le> 0xFF"
    | (u) "\<not> P c" "0xFF < c" "c \<le> 0xFFFF"
    | (U) "\<not> P c" "0xFFFF < c"
    by linarith
  then show ?thesis
  proof cases
    case esc
    then have "repr_char P q c = [backslash, c]"
      by (simp add: repr_char_def)
    moreover have "c = backslash \<or> c = squote \<or> c = dquote"
      using esc q by auto
    ultimately show ?thesis
      using decode_items_simple_escape[OF qb, of c rest] by simp
  next
    case tab
    then have "repr_char P q c = [backslash, ord CHR ''t'']"
      using q by (auto simp: repr_char_def)
    then show ?thesis
      using decode_items_tnr(1)[OF qb, of rest] tab by simp
  next
    case lf
    then have "repr_char P q c = [backslash, ord CHR ''n'']"
      using q by (auto simp: repr_char_def)
    then show ?thesis
      using decode_items_tnr(2)[OF qb, of rest] lf by simp
  next
    case cr
    then have "repr_char P q c = [backslash, ord CHR ''r'']"
      using q by (auto simp: repr_char_def)
    then show ?thesis
      using decode_items_tnr(3)[OF qb, of rest] cr by simp
  next
    case ctl
    then have "repr_char P q c = backslash # ord CHR ''x'' # hex_field 2 c"
      using q by (auto simp: repr_char_def)
    moreover have "c < 0x100"
      using ctl by auto
    ultimately show ?thesis
      using decode_items_hex(1)[OF qb c, of rest] by simp
  next
    case ascii
    then have "repr_char P q c = [c]"
      by (auto simp: repr_char_def)
    then show ?thesis
      using decode_items_raw[of c q rest] ascii by simp
  next
    case raw
    then have "repr_char P q c = [c]"
      using q by (auto simp: repr_char_def)
    moreover have "c \<noteq> q"
      using raw q by auto
    ultimately show ?thesis
      using decode_items_raw[of c q rest] raw by simp
  next
    case x
    then have "repr_char P q c = backslash # ord CHR ''x'' # hex_field 2 c"
      using q by (auto simp: repr_char_def)
    then show ?thesis
      using decode_items_hex(1)[OF qb c, of rest] x by simp
  next
    case u
    then have "repr_char P q c = backslash # ord CHR ''u'' # hex_field 4 c"
      using q by (auto simp: repr_char_def)
    then show ?thesis
      using decode_items_hex(2)[OF qb c, of rest] u by simp
  next
    case U
    then have "repr_char P q c = backslash # ord CHR ''U'' # hex_field 8 c"
      using q by (auto simp: repr_char_def)
    then show ?thesis
      using decode_items_hex(3)[OF qb c, of rest] by simp
  qed
qed

lemma decode_items_repr_body:
  assumes "q = squote \<or> q = dquote" and "wf_str s"
  shows "decode_items q (concat (map (repr_char P q) s) @ [q]) = Some s"
  using assms(2)
proof (induction s)
  case Nil
  show ?case by (simp add: decode_items_quote)
next
  case (Cons c s)
  then have "c < 0x110000" and "wf_str s"
    by (simp_all add: wf_str_def)
  then show ?case
    using Cons.IH decode_items_repr_char[OF assms(1), where c = c and P = P
        and rest = "concat (map (repr_char P q) s) @ [q]"]
    by simp
qed

lemma repr_quote_cases: "repr_quote s = squote \<or> repr_quote s = dquote"
  by (simp add: repr_quote_def)

lemma decode_unicode_repr: "wf_str s \<Longrightarrow> decode_literal (unicode_repr P s) = Some s"
  using decode_items_repr_body[OF repr_quote_cases, where s = s and P = P] repr_quote_cases[of s]
  by (auto simp: decode_literal_def unicode_repr_def Let_def)


section \<open>The lines of one widget\<close>

lemma kinds_distinct:
  "str ''Button'' \<noteq> str ''Entry''" "str ''Label'' \<noteq> str ''Entry''"
  "str ''Frame'' \<noteq> str ''Entry''" "str ''Menu'' \<noteq> str ''Entry''"
  by (simp_all add: str_def)

lemma widget_options_eq:
  "widget_options P w =
     str ''root'' #
       (if widget_type w \<in> {str ''Button'', str ''Label''} \<and> widget_text w \<noteq> None
        then [str ''text='' @ unicode_repr P (the (widget_text w))] else [])"
  by (auto simp: widget_options_def Let_def kinds_distinct kinds_distinct[symmetric])

lemma widget_block_eq:
  "widget_block P w =
     construct_line P w #
       (if widget_type w = str ''Entry'' \<and> widget_text w \<noteq> None then [insert_line P w] else [])
       @ [place_line w, []]"
  by (simp add: widget_block_def emit_widget_def Let_def)

lemma widget_block_emitted:
  assumes "w \<in> set (widgets layout)"
  shows "\<exists>pre post. generate_lines P layout = Inr (pre @ widget_block P w @ post)"
proof -
  from assms obtain ys zs where ws: "widgets layout = ys @ w # zs"
    by (auto simp: in_set_conv_decomp)
  obtain header where lines: "generate_lines P layout =
      Inr (header @ concat (map (widget_block P) (widgets layout)) @ [str ''root.mainloop()''])"
    using generate_lines_eq[of P layout] by blast
  have "generate_lines P layout =
      Inr ((header @ concat (map (widget_block P) ys)) @ widget_block P w
            @ (concat (map (widget_block P) zs) @ [str ''root.mainloop()'']))"
    unfolding lines ws by simp
  then show ?thesis by blast
qed

lemma construct_line_eq:
  "construct_line P w =
     widget_id w @ str '' = tk.'' @ widget_type w @ str ''(root''
       @ (if widget_type w \<in> {str ''Button'', str ''Label''} \<and> widget_text w \<noteq> None
          then str '', text='' @ unicode_repr P (the (widget_text w)) else [])
       @ str '')''"
  by (simp add: construct_line_def widget_options_eq Let_def str_def)


section \<open>Reading a rendered integer back\<close>







section \<open>The empty layout\<close>

text \<open>
  C6. For the layout with no widgets the geometry statement is
  \<open>root.geometry('0x0')\<close>, no widget contributes a line, and the script is exactly the
  four fixed lines, the geometry line, a blank line and \<open>root.mainloop()\<close>.
\<close>

theorem empty_layout_script:
  assumes "widgets layout = []"
  shows "generate_lines P layout =
           Inr [str ''import tkinter as tk'', [], str ''root = tk.Tk()'',
                str ''root.title('Generated GUI')'',
                str ''root.geometry('0x0')'', [], str ''root.mainloop()'']
         \<and> concat (map (widget_block P) (widgets layout)) = []
         \<and> generate_tkinter_code P layout =
             Inr (str ''import tkinter as tk\<newline>\<newline>root = tk.Tk()\<newline>root.title('Generated GUI')\<newline>root.geometry('0x0')\<newline>\<newline>root.mainloop()'')"
proof -
  have geo: "str ''root.geometry('' @ [squote] @ str ''0'' @ str ''x'' @ str ''0'' @ [squote] @ str '')''
               = str ''root.geometry('0x0')''"
    by (simp add: str_def)
  have lines: "generate_lines P layout =
           Inr [str ''import tkinter as tk'', [], str ''root = tk.Tk()'',
                str ''root.title('Generated GUI')'',
                str ''root.geometry('0x0')'', [], str ''root.mainloop()'']"
    using assms geo by (simp add: generate_lines_eq str_int_0)
  have blocks: "concat (map (widget_block P) (widgets layout)) = []"
    using assms by simp
  have "generate_tkinter_code P layout =
           Inr (str ''import tkinter as tk\<newline>\<newline>root = tk.Tk()\<newline>root.title('Generated GUI')\<newline>root.geometry('0x0')\<newline>\<newline>root.mainloop()'')"
    unfolding generate_tkinter_code_def lines by (simp add: str_def)
  with lines blocks show ?thesis by blast
qed

theorem empty_layout_script_witness:
  "widgets \<lparr>widgets = []\<rparr> = []
   \<and> generate_tkinter_code (\<lambda>c. True) \<lparr>widgets = []\<rparr> =
       Inr (str ''import tkinter as tk\<newline>\<newline>root = tk.Tk()\<newline>root.title('Generated GUI')\<newline>root.geometry('0x0')\<newline>\<newline>root.mainloop()'')"
  using empty_layout_script[of "\<lparr>widgets = []\<rparr>" "\<lambda>c. True"] by simp

section \<open>The text literal\<close>

lemma example_members:
  "example_button \<in> set (widgets example_layout)"
  "example_entry \<in> set (widgets example_layout)"
  "example_label \<in> set (widgets example_layout)"
  by (simp_all add: example_layout_def)

lemma example_entry_repr:
  "unicode_repr P (str ''a'b'' @ [backslash, 0x0A, dquote])
     = squote # str ''a'' @ [backslash, squote] @ str ''b'' @ [backslash, backslash]
         @ [backslash] @ str ''n'' @ [dquote, squote]"
  by (simp add: unicode_repr_def repr_quote_def repr_char_def str_def)

text \<open>
  C1. A widget of kind Button, Label or Entry whose text is present has the literal
  \<open>repr(text)\<close> in the script: in the option \<open>text=\<close> of the constructor call for a
  Button or a Label, as the second argument of the \<open>insert\<close> statement for an Entry.
  Read as a string literal of the script's language, that literal is the text itself,
  whatever characters the text holds.
\<close>

theorem text_literal_roundtrip:
  assumes "w \<in> set (widgets layout)" and "widget_text w = Some t" and "wf_str t"
    and "widget_type w \<in> {str ''Button'', str ''Label'', str ''Entry''}"
  shows "\<exists>lines. generate_lines P layout = Inr lines
           \<and> (if widget_type w = str ''Entry''
               then widget_id w @ str ''.insert(0, '' @ unicode_repr P t @ str '')''
               else widget_id w @ str '' = tk.'' @ widget_type w @ str ''(root, text=''
                      @ unicode_repr P t @ str '')'') \<in> set lines
           \<and> decode_literal (unicode_repr P t) = Some t"
proof -
  obtain pre post where lines: "generate_lines P layout = Inr (pre @ widget_block P w @ post)"
    using widget_block_emitted[OF assms(1)] by blast
  have "(if widget_type w = str ''Entry''
         then widget_id w @ str ''.insert(0, '' @ unicode_repr P t @ str '')''
         else widget_id w @ str '' = tk.'' @ widget_type w @ str ''(root, text=''
                @ unicode_repr P t @ str '')'') \<in> set (widget_block P w)"
  proof (cases "widget_type w = str ''Entry''")
    case True
    then show ?thesis
      using assms(2) by (simp add: widget_block_eq insert_line_def)
  next
    case False
    then have "construct_line P w =
        widget_id w @ str '' = tk.'' @ widget_type w @ str ''(root, text=''
          @ unicode_repr P t @ str '')''"
      using assms(2,4) by (simp add: construct_line_eq str_def)
    then show ?thesis
      using False by (simp add: widget_block_eq)
  qed
  then show ?thesis
    using lines decode_unicode_repr[OF assms(3)] by auto
qed

theorem text_literal_roundtrip_witness:
  "example_entry \<in> set (widgets example_layout)
   \<and> widget_text example_entry = Some (str ''a'b'' @ [backslash, 0x0A, dquote])
   \<and> wf_str (str ''a'b'' @ [backslash, 0x0A, dquote])
   \<and> widget_type example_entry = str ''Entry''
   \<and> (\<exists>lines. generate_lines (\<lambda>c. True) example_layout = Inr lines
          \<and> str ''name'' @ str ''.insert(0, ''
               @ unicode_repr (\<lambda>c. True) (str ''a'b'' @ [backslash, 0x0A, dquote]) @ str '')''
             \<in> set lines)
   \<and> unicode_repr (\<lambda>c. True) (str ''a'b'' @ [backslash, 0x0A, dquote])
       = squote # str ''a'' @ [backslash, squote] @ str ''b'' @ [backslash, backslash]
           @ [backslash] @ str ''n'' @ [dquote, squote]
   \<and> decode_literal (unicode_repr (\<lambda>c. True) (str ''a'b'' @ [backslash, 0x0A, dquote]))
       = Some (str ''a'b'' @ [backslash, 0x0A, dquote])"
proof -
  have ty: "widget_type example_entry \<in> {str ''Button'', str ''Label'', str ''Entry''}"
    and tx: "widget_text example_entry = Some (str ''a'b'' @ [backslash, 0x0A, dquote])"
    and wf: "wf_str (str ''a'b'' @ [backslash, 0x0A, dquote])"
    by (simp_all add: example_entry_def wf_str_def str_def)
  have "widget_id example_entry = str ''name''" "widget_type example_entry = str ''Entry''"
    by (simp_all add: example_entry_def)
  then show ?thesis
    using text_literal_roundtrip[OF example_members(2) tx wf ty, of "\<lambda>c. True"] tx wf
    by (auto simp add: example_members(2) example_entry_repr)
qed

section \<open>Constructor arguments\<close>




section \<open>Entry widgets\<close>




section \<open>Placement\<close>



section \<open>Window extents\<close>





section \<open>The first and the last line\<close>









section \<open>The emitter raises nothing\<close>




section \<open>Unsupported types\<close>

lemma parse_Widget_unsupported:
  assumes "raw_type r = Some v" and "v \<notin> supported"
  shows "\<exists>es. parse_Widget r = Inl es
           \<and> (str ''type'', Raised (ValueError (str ''Unsupported widget type: '' @ v))) \<in> set es"
  using assms
  by (simp add: parse_Widget_def checked_type_def validate_type_def field_errors_def Let_def)

lemma located_in_errors:
  assumes "i < length results" and "results ! i = Inl es" and "(name, e) \<in> set es"
  shows "((i, name), e) \<in> set (concat (map located (enumerate 0 results)))"
proof -
  have "(i, Inl es) \<in> set (enumerate 0 results)"
    using assms(1,2) by (simp add: in_set_enumerate_eq)
  moreover have "((i, name), e) \<in> set (located (i, Inl es))"
    using assms(3) by (force simp: located_def)
  ultimately show ?thesis
    by (auto simp del: enumerate_simps)
qed

text \<open>
  C7. A request body in which some widget has a type outside the five supported ones
  ends in a validation failure: the errors hold, at the index of that widget and the
  field \<open>type\<close>, the \<open>ValueError\<close> whose message is \<open>Unsupported widget type: \<close>
  followed by the offending value. The answer is the failure alone; it carries no
  script, and the emitter is not run.
\<close>

theorem unsupported_type_rejected:
  assumes "i < length raws" and "raw_type (raws ! i) = Some v" and "v \<notin> supported"
  shows "\<exists>errs. parse_Layout raws = Inl errs
           \<and> post_generate_code P raws = Validation_Failure errs
           \<and> ((i, str ''type''), Raised (ValueError (str ''Unsupported widget type: '' @ v)))
               \<in> set errs
           \<and> (\<forall>code. post_generate_code P raws \<noteq> Code code)"
proof -
  obtain es where es: "parse_Widget (raws ! i) = Inl es"
    and bad: "(str ''type'', Raised (ValueError (str ''Unsupported widget type: '' @ v))) \<in> set es"
    using parse_Widget_unsupported[OF assms(2,3)] by blast
  define errs where "errs = concat (map located (enumerate 0 (map parse_Widget raws)))"
  have mem: "((i, str ''type''), Raised (ValueError (str ''Unsupported widget type: '' @ v)))
               \<in> set errs"
    unfolding errs_def
    using located_in_errors[of i "map parse_Widget raws" es] assms(1) es bad by simp
  then have "errs \<noteq> []"
    by auto
  then have "parse_Layout raws = Inl errs"
    by (simp add: parse_Layout_def errs_def Let_def)
  then show ?thesis
    using mem by (simp add: post_generate_code_def)
qed

theorem unsupported_type_rejected_witness:
  "(1::nat) < length [raw_button, raw_checkbox]
   \<and> raw_type ([raw_button, raw_checkbox] ! 1) = Some (str ''Checkbox'')
   \<and> str ''Checkbox'' \<notin> supported
   \<and> post_generate_code (\<lambda>c. True) [raw_button, raw_checkbox] =
       Validation_Failure
         [((1, str ''type''), Raised (ValueError (str ''Unsupported widget type: Checkbox'')))]"
proof -
  have h: "(1::nat) < length [raw_button, raw_checkbox]"
    "raw_type ([raw_button, raw_checkbox] ! 1) = Some (str ''Checkbox'')"
    "str ''Checkbox'' \<notin> supported"
    by (simp_all add: raw_checkbox_def supported_def str_def)
  have "parse_Layout [raw_button, raw_checkbox] =
      Inl [((1, str ''type''), Raised (ValueError (str ''Unsupported widget type: Checkbox'')))]"
    by code_simp
  then show ?thesis
    using unsupported_type_rejected[OF h, of "\<lambda>c. True"] h by auto
qed

section \<open>Ids are not compared\<close>







end
